theory Spec2Isabelle
  imports Complex_Main "HOL-Library.Sublist" "HOL-Library.Multiset"
begin

section \<open>Python values and built-ins used by npa.py\<close>

text \<open>
  Strings are lists of code points below 256, one \<open>char\<close> per code point. A float is a
  finite number, an infinity or NaN; the finite ones are exact reals, so that rounding, and
  a finite result too large for a float, are outside the model. In a stored row Python's
  \<open>None\<close> and the NaN that a data frame holds for a missing cell are both the absent
  value, and a column of integers that the frame holds as floats because of a missing cell
  holds the same numbers.
\<close>

datatype pyfloat = Fin real | PosInf | NegInf | NaN

datatype pyval =
    PNone
  | PBool bool
  | PInt int
  | PFloat pyfloat
  | PStr string
  | PList "pyval list"
  | PDict "(string \<times> pyval) list"

datatype error =
    NoData int            \<comment> \<open>\<open>ValueError("No win probability data for event ...")\<close>\<close>
  | InvalidLiteral string \<comment> \<open>\<open>ValueError\<close> of \<open>int()\<close> on a string\<close>
  | OverflowError         \<comment> \<open>an integer too large for 64 bits, or for a float\<close>
  | TypeError             \<comment> \<open>an operator applied to operands it does not support\<close>

subsection \<open>\<open>int(s)\<close> on a string\<close>

text \<open>
  Base 10: white space around the literal, an optional sign, then digits, no more of them
  than the interpreter's limit on the digits of a literal, 4300 unless reconfigured.
\<close>

definition max_str_digits :: nat where
  "max_str_digits = 4300"

definition py_isspace :: "char \<Rightarrow> bool" where
  \<comment> \<open>the characters \<open>int()\<close> skips around a literal\<close>
  "py_isspace c = ((of_char c :: nat) \<in> {9, 10, 11, 12, 13, 32, 133, 160})"

definition py_isdigit :: "char \<Rightarrow> bool" where
  "py_isdigit c = (48 \<le> (of_char c :: nat) \<and> (of_char c :: nat) \<le> 57)"

definition digit_val :: "char \<Rightarrow> int" where
  "digit_val c = int (of_char c) - 48"

definition strip_space :: "string \<Rightarrow> string" where
  "strip_space s = rev (dropWhile py_isspace (rev (dropWhile py_isspace s)))"

text \<open>Decimal digits, where a single underscore may stand between two digits.\<close>

fun py_digits :: "int \<Rightarrow> string \<Rightarrow> int option" where
  "py_digits acc [] = Some acc"
| "py_digits acc (c # cs) =
     (if c = CHR ''_'' then
        (case cs of [] \<Rightarrow> None
         | d # ds \<Rightarrow> if py_isdigit d then py_digits acc cs else None)
      else if py_isdigit c then py_digits (acc * 10 + digit_val c) cs
      else None)"

definition py_unsigned :: "string \<Rightarrow> int option" where
  "py_unsigned s =
     (case s of [] \<Rightarrow> None
      | c # cs \<Rightarrow>
          if py_isdigit c \<and> length (filter py_isdigit s) \<le> max_str_digits
          then py_digits 0 s else None)"

definition py_int :: "string \<Rightarrow> error + int" where
  "py_int s =
     (let t = strip_space s;
          r = (case t of [] \<Rightarrow> None
               | c # cs \<Rightarrow>
                   if c = CHR ''-'' then map_option uminus (py_unsigned cs)
                   else if c = CHR ''+'' then py_unsigned cs
                   else py_unsigned t)
      in case r of None \<Rightarrow> Inl (InvalidLiteral s) | Some n \<Rightarrow> Inr n)"

subsection \<open>\<open>str(n)\<close> on an integer\<close>

definition digit_char :: "nat \<Rightarrow> char" where
  "digit_char d = char_of (48 + d)"

fun str_nat :: "nat \<Rightarrow> string" where
  "str_nat n = (if n < 10 then [digit_char n] else str_nat (n div 10) @ [digit_char (n mod 10)])"

declare str_nat.simps [simp del]

definition str_int :: "int \<Rightarrow> string" where
  "str_int i = (if i < 0 then CHR ''-'' # str_nat (nat (- i)) else str_nat (nat i))"

subsection \<open>\<open>s.split(sep)\<close>, \<open>s.lower()\<close> and \<open>s in t\<close>\<close>

fun split_on :: "char \<Rightarrow> string \<Rightarrow> string list" where
  "split_on sep [] = [[]]"
| "split_on sep (c # cs) =
     (if c = sep then [] # split_on sep cs
      else (case split_on sep cs of
              [] \<Rightarrow> [[c]]
            | p # ps \<Rightarrow> (c # p) # ps))"

definition lower_char :: "char \<Rightarrow> char" where
  "lower_char c =
     (let n = (of_char c :: nat)
      in if (65 \<le> n \<and> n \<le> 90) \<or> (192 \<le> n \<and> n \<le> 222 \<and> n \<noteq> 215)
         then char_of (n + 32) else c)"

definition lower :: "string \<Rightarrow> string" where
  "lower s = map lower_char s"

fun py_in :: "string \<Rightarrow> string \<Rightarrow> bool" where
  "py_in s [] = (s = [])"
| "py_in s (c # cs) = (prefix s (c # cs) \<or> py_in s cs)"

section \<open>The elapsed-time converter\<close>

text \<open>
  The body of the \<open>try\<close> block of \<open>parse_game_time\<close>: the clock is split at the colon into
  exactly two parts, each read by \<open>int()\<close>. Every exception in it is caught, so failure is
  \<open>None\<close>; a clock that is no string has no \<open>split\<close> and fails as well.
\<close>

definition parse_clock :: "pyval \<Rightarrow> int option" where
  "parse_clock clock_str =
     (case clock_str of
        PStr s \<Rightarrow>
          (case split_on CHR '':'' s of
             [mins, secs] \<Rightarrow>
               (case (py_int mins, py_int secs) of
                  (Inr m, Inr x) \<Rightarrow> Some (m * 60 + x)
                | _ \<Rightarrow> None)
           | _ \<Rightarrow> None)
      | _ \<Rightarrow> None)"

text \<open>
  The arithmetic after the \<open>try\<close> block, by the type of the period. On an integer or a
  boolean it is integer arithmetic, which cannot fail. Every other value that is no float
  fails at \<open>period <= 4\<close>.
\<close>

definition elapsed_int :: "int \<Rightarrow> int \<Rightarrow> int" where
  "elapsed_int period remaining =
     (let (period_len, prev_total) =
            (if period \<le> 4 then (12 * 60, (period - 1) * 12 * 60)
             else (5 * 60, 4 * 12 * 60 + (period - 5) * 5 * 60));
          elapsed_in_period = period_len - remaining
      in prev_total + elapsed_in_period)"

text \<open>
  On a float, \<open>prev_total\<close> is a float and \<open>elapsed_in_period\<close> still an integer: their
  sum converts the integer to a float, which raises when the integer is too large for
  one. The comparison is false on NaN; the arithmetic of \<open>prev_total\<close>, an increasing
  linear function of the period, leaves an infinity and NaN as they are.
\<close>

definition fits_float :: "int \<Rightarrow> bool" where
  \<comment> \<open>\<open>float(n)\<close> does not raise\<close>
  "fits_float n = (\<bar>n\<bar> < 2 ^ 1024 - 2 ^ 970)"

fun float_le :: "pyfloat \<Rightarrow> real \<Rightarrow> bool" where
  "float_le (Fin x) c = (x \<le> c)"
| "float_le NegInf c = True"
| "float_le PosInf c = False"
| "float_le NaN c = False"

fun float_map :: "(real \<Rightarrow> real) \<Rightarrow> pyfloat \<Rightarrow> pyfloat" where
  "float_map f (Fin x) = Fin (f x)"
| "float_map f v = v"

definition elapsed_float :: "pyfloat \<Rightarrow> int \<Rightarrow> error + pyfloat" where
  "elapsed_float period remaining =
     (let (period_len, prev_total) =
            (if float_le period 4 then (12 * 60, float_map (\<lambda>x. (x - 1) * 12 * 60) period)
             else (5 * 60, float_map (\<lambda>x. 4 * 12 * 60 + (x - 5) * 5 * 60) period));
          elapsed_in_period = period_len - remaining
      in if fits_float elapsed_in_period
         then Inr (float_map (\<lambda>x. x + real_of_int elapsed_in_period) prev_total)
         else Inl OverflowError)"

definition parse_game_time :: "pyval \<Rightarrow> pyval \<Rightarrow> error + pyval" where
  "parse_game_time period clock_str =
     (if period = PNone \<or> clock_str = PNone then Inr PNone
      else case parse_clock clock_str of
        None \<Rightarrow> Inr PNone
      | Some remaining \<Rightarrow>
          (case period of
             PInt p \<Rightarrow> Inr (PInt (elapsed_int p remaining))
           | PBool b \<Rightarrow> Inr (PInt (elapsed_int (if b then 1 else 0) remaining))
           | PFloat x \<Rightarrow>
               (case elapsed_float x remaining of
                  Inl e \<Rightarrow> Inl e
                | Inr y \<Rightarrow> Inr (PFloat y))
           | _ \<Rightarrow> Inl TypeError))"

section \<open>The game summary\<close>

text \<open>
  The summary is the JSON document of one game, typed by the fields the code reads. A
  field that is missing or \<open>null\<close> is \<open>None\<close>; an object-valued field that is missing,
  \<open>null\<close> or the empty object is \<open>None\<close> as well, which is how every \<open>x.get(k) or {}\<close> of the
  source sees it. A list-valued field read as \<open>x.get(k) or []\<close> is the list, empty when
  missing. An identifier may arrive as a string or as a number. The period number and the
  scores of a play are integers that fit 64 bits, or absent; its clock and its text are
  strings, or absent.
\<close>

datatype idval = IdNone | IdInt int | IdStr string

definition str_id :: "idval \<Rightarrow> string" where
  \<comment> \<open>\<open>str(x)\<close>; for a number also \<open>str(int(x))\<close>\<close>
  "str_id v = (case v of IdNone \<Rightarrow> ''None'' | IdInt n \<Rightarrow> str_int n | IdStr s \<Rightarrow> s)"

definition truthy :: "string option \<Rightarrow> bool" where
  "truthy a = (case a of None \<Rightarrow> False | Some s \<Rightarrow> s \<noteq> [])"

definition py_or :: "string option \<Rightarrow> string option \<Rightarrow> string option" where
  \<comment> \<open>\<open>a or b\<close> on values that are a string or \<open>None\<close>\<close>
  "py_or a b = (if truthy a then a else b)"

definition or_empty :: "string option \<Rightarrow> string" where
  \<comment> \<open>\<open>a or ""\<close>\<close>
  "or_empty a = (case a of None \<Rightarrow> [] | Some s \<Rightarrow> s)"

record team_json =
  tj_id :: idval
  tj_abbreviation :: "string option"
  tj_displayName :: "string option"
  tj_shortDisplayName :: "string option"
  tj_name :: "string option"

definition no_team :: team_json where
  \<comment> \<open>the \<open>{}\<close> of \<open>x.get("team") or {}\<close>\<close>
  "no_team = \<lparr>tj_id = IdNone, tj_abbreviation = None, tj_displayName = None,
              tj_shortDisplayName = None, tj_name = None\<rparr>"

definition or_no_team :: "team_json option \<Rightarrow> team_json" where
  "or_no_team t = (case t of None \<Rightarrow> no_team | Some x \<Rightarrow> x)"

record athlete_json =
  aj_id :: idval
  aj_displayName :: "string option"
  aj_shortName :: "string option"
  aj_fullName :: "string option"

definition no_athlete :: athlete_json where
  "no_athlete = \<lparr>aj_id = IdNone, aj_displayName = None, aj_shortName = None, aj_fullName = None\<rparr>"

definition or_no_athlete :: "athlete_json option \<Rightarrow> athlete_json" where
  "or_no_athlete a = (case a of None \<Rightarrow> no_athlete | Some x \<Rightarrow> x)"

text \<open>
  A play. \<open>pl_period_number\<close> is \<open>(play.get("period") or {}).get("number")\<close>,
  \<open>pl_clock_displayValue\<close> is \<open>(play.get("clock") or {}).get("displayValue")\<close>,
  \<open>pl_type_text\<close> is \<open>(play.get("type") or {}).get("text")\<close>, and a participant is its
  \<open>athlete\<close> field.
\<close>

record play_json =
  pl_id :: idval
  pl_period_number :: "int option"
  pl_clock_displayValue :: "string option"
  pl_homeScore :: "int option"
  pl_awayScore :: "int option"
  pl_team :: "team_json option"
  pl_participants :: "athlete_json option list"
  pl_text :: "string option"
  pl_type_text :: "string option"
  pl_shortDescription :: "string option"

record wp_json =
  playId :: idval
  homeWinPercentage :: "real option"
  tiePercentage :: "real option"

text \<open>The position or role of an official: a string, or an object with two names.\<close>

datatype label = LStr string | LObj "string option" "string option"

record official_json =
  oj_displayName :: "string option"
  oj_fullName :: "string option"
  oj_name :: "string option"
  oj_position :: "label option"
  oj_role :: "label option"

record competitor_json =
  cj_team :: "team_json option"
  cj_homeAway :: "string option"

record competition_json =
  competitors :: "competitor_json list"
  comp_officials :: "official_json list"
  comp_details_officials :: "official_json list"

text \<open>
  A block of \<open>boxscore.players\<close>: \<open>tb_statistics\<close> holds, for each entry of \<open>statistics\<close>,
  the \<open>athlete\<close> fields of its \<open>athletes\<close>.
\<close>

record team_block_json =
  tb_team :: "team_json option"
  tb_statistics :: "athlete_json option list list"

record boxscore_json =
  players :: "team_block_json list"
  box_officials :: "official_json list"

record game_summary =
  header_competitions :: "competition_json list"
  plays :: "play_json list"
  winprobability :: "wp_json list option"
  gameInfo_officials :: "official_json list"
  boxscore :: "boxscore_json option"
  boxScore :: "boxscore_json option"

section \<open>Team metadata\<close>

record team_meta =
  tm_id :: idval
  tm_abbr :: "string option"
  tm_name :: "string option"
  tm_short :: "string option"

definition meta_of :: "competitor_json \<Rightarrow> team_meta" where
  "meta_of c =
     (let team = or_no_team (cj_team c)
      in \<lparr>tm_id = tj_id team,
          tm_abbr = tj_abbreviation team,
          tm_name = py_or (py_or (tj_displayName team) (tj_shortDisplayName team)) (tj_name team),
          tm_short = py_or (tj_shortDisplayName team) (tj_abbreviation team)\<rparr>)"

fun scan_competitors ::
  "competitor_json list \<Rightarrow> team_meta option \<times> team_meta option \<Rightarrow> team_meta option \<times> team_meta option"
where
  "scan_competitors [] (home, away) = (home, away)"
| "scan_competitors (c # cs) (home, away) =
     (if cj_homeAway c = Some ''home'' then scan_competitors cs (Some (meta_of c), away)
      else if cj_homeAway c = Some ''away'' then scan_competitors cs (home, Some (meta_of c))
      else scan_competitors cs (home, away))"

definition get_home_away_meta :: "game_summary \<Rightarrow> team_meta option \<times> team_meta option" where
  "get_home_away_meta data =
     (case header_competitions data of
        [] \<Rightarrow> (None, None)
      | competition # _ \<Rightarrow> scan_competitors (competitors competition) (None, None))"

section \<open>The timeline builder\<close>

record wp_row =
  play_id :: string
  period :: "int option"
  clock :: "string option"
  home_score :: "int option"
  away_score :: "int option"
  home_win_prob :: "real option"
  away_win_prob :: "real option"
  description :: "string option"
  team_id :: idval
  team_abbr :: "string option"
  team_name :: "string option"
  primary_athlete_id :: "string option"
  participants_raw :: "string list"

record timeline_row = wp_row +
  play_id_int :: int
  elapsed :: pyval
  home_wp_before :: "real option"
  away_wp_before :: "real option"
  elapsed_before :: pyval
  period_before :: "int option"
  clock_before :: "string option"

text \<open>\<open>{str(p.get("id")): p for p in plays}\<close>: a later play replaces an earlier one.\<close>

fun index_plays :: "play_json list \<Rightarrow> (string \<rightharpoonup> play_json) \<Rightarrow> (string \<rightharpoonup> play_json)" where
  "index_plays [] m = m"
| "index_plays (p # ps) m = index_plays ps (m(str_id (pl_id p) \<mapsto> p))"

definition no_play :: play_json where
  \<comment> \<open>the \<open>{}\<close> of \<open>plays_by_id.get(pid, {})\<close>\<close>
  "no_play = \<lparr>pl_id = IdNone, pl_period_number = None, pl_clock_displayValue = None,
              pl_homeScore = None, pl_awayScore = None, pl_team = None, pl_participants = [],
              pl_text = None, pl_type_text = None, pl_shortDescription = None\<rparr>"

fun athlete_ids_of :: "athlete_json option list \<Rightarrow> string list" where
  "athlete_ids_of [] = []"
| "athlete_ids_of (p # ps) =
     (let athlete = or_no_athlete p; aid = aj_id athlete
      in if aid \<noteq> IdNone then str_id aid # athlete_ids_of ps else athlete_ids_of ps)"

definition away_of :: "real option \<Rightarrow> real option \<Rightarrow> real option" where
  "away_of home_wp tie =
     (let tie_wp = (case tie of None \<Rightarrow> 0 | Some t \<Rightarrow> if t \<noteq> 0 then t else 0)
      in case home_wp of
           Some h \<Rightarrow> Some (1 - (if h \<noteq> 0 then h else 0) - tie_wp)
         | None \<Rightarrow> None)"

definition row_of :: "(string \<rightharpoonup> play_json) \<Rightarrow> wp_json \<Rightarrow> wp_row" where
  "row_of plays_by_id w =
     (let pid = str_id (playId w);
          play = (case plays_by_id pid of None \<Rightarrow> no_play | Some p \<Rightarrow> p);
          home_wp = homeWinPercentage w;
          team = or_no_team (pl_team play);
          team_abbr = py_or (tj_abbreviation team) (tj_shortDisplayName team);
          athlete_ids = athlete_ids_of (pl_participants play)
      in \<lparr>play_id = pid,
          period = pl_period_number play,
          clock = pl_clock_displayValue play,
          home_score = pl_homeScore play,
          away_score = pl_awayScore play,
          home_win_prob = home_wp,
          away_win_prob = away_of home_wp (tiePercentage w),
          description = pl_text play,
          team_id = tj_id team,
          team_abbr = team_abbr,
          team_name = py_or (py_or (py_or (tj_displayName team) (tj_shortDisplayName team))
                                (tj_name team)) team_abbr,
          primary_athlete_id = (case athlete_ids of [] \<Rightarrow> None | a # _ \<Rightarrow> Some a),
          participants_raw = athlete_ids\<rparr>)"

text \<open>
  \<open>df["play_id"].astype("int64")\<close>: each string is read by \<open>int()\<close> and must fit 64 bits;
  the first element that fails raises.
\<close>

fun astype_int64 :: "string list \<Rightarrow> error + int list" where
  "astype_int64 [] = Inr []"
| "astype_int64 (s # ss) =
     (case py_int s of
        Inl e \<Rightarrow> Inl e
      | Inr n \<Rightarrow>
          if - (2 ^ 63) \<le> n \<and> n < 2 ^ 63 then
            (case astype_int64 ss of Inl e \<Rightarrow> Inl e | Inr ns \<Rightarrow> Inr (n # ns))
          else Inl OverflowError)"

definition opt_int :: "int option \<Rightarrow> pyval" where
  "opt_int x = (case x of None \<Rightarrow> PNone | Some n \<Rightarrow> PInt n)"

definition opt_str :: "string option \<Rightarrow> pyval" where
  "opt_str x = (case x of None \<Rightarrow> PNone | Some s \<Rightarrow> PStr s)"

text \<open>
  The period column as the frame holds it, and as \<open>df.apply\<close> hands it to the converter:
  integers when no cell is missing, \<open>None\<close> when every cell is missing, and otherwise
  floats, with NaN in the missing cells.
\<close>

definition period_cells :: "int option list \<Rightarrow> pyval list" where
  "period_cells col =
     (if list_all (\<lambda>p. p \<noteq> None) col then map opt_int col
      else if list_all (\<lambda>p. p = None) col then map (\<lambda>p. PNone) col
      else map (\<lambda>p. case p of None \<Rightarrow> PFloat NaN
                     | Some n \<Rightarrow> PFloat (Fin (real_of_int n))) col)"

definition elapsed_inputs :: "(int \<times> wp_row) list \<Rightarrow> (pyval \<times> pyval) list" where
  "elapsed_inputs df =
     zip (period_cells (map (\<lambda>r. period (snd r)) df)) (map (\<lambda>r. opt_str (clock (snd r))) df)"

text \<open>
  \<open>df.apply(lambda r: parse_game_time(r["period"], r["clock"]), axis=1)\<close>: the first row
  on which the converter raises ends the run.
\<close>

fun apply_elapsed :: "(pyval \<times> pyval) list \<Rightarrow> error + pyval list" where
  "apply_elapsed [] = Inr []"
| "apply_elapsed (r # rs) =
     (case parse_game_time (fst r) (snd r) of
        Inl e \<Rightarrow> Inl e
      | Inr v \<Rightarrow> (case apply_elapsed rs of Inl e \<Rightarrow> Inl e | Inr vs \<Rightarrow> Inr (v # vs)))"

definition as_cell :: "pyval \<Rightarrow> pyval" where
  \<comment> \<open>a result as the column stores it: NaN is the absent value\<close>
  "as_cell v = (if v = PFloat NaN then PNone else v)"

definition shift :: "'a \<Rightarrow> 'a list \<Rightarrow> 'a list" where
  \<comment> \<open>\<open>column.shift(1)\<close>, the first cell filled with the absent value\<close>
  "shift fill xs = take (length xs) (fill # xs)"

text \<open>
  The frame after the sort is the list of rows, each with its \<open>play_id_int\<close>; the columns
  added afterwards are lists of the same length. \<open>sort_values\<close> is modelled by a stable
  sort on the key.
\<close>

definition timeline_of ::
  "(int \<times> wp_row) list \<Rightarrow> pyval list \<Rightarrow> timeline_row list"
where
  "timeline_of df elapsed_col =
     (let home_wp_before_col = shift None (map (\<lambda>r. home_win_prob (snd r)) df);
          away_wp_before_col = shift None (map (\<lambda>r. away_win_prob (snd r)) df);
          elapsed_before_col = shift PNone elapsed_col;
          period_before_col = shift None (map (\<lambda>r. period (snd r)) df);
          clock_before_col = shift None (map (\<lambda>r. clock (snd r)) df)
      in map (\<lambda>k. wp_row.extend (snd (df ! k))
                    (timeline_row.fields (fst (df ! k)) (elapsed_col ! k)
                       (home_wp_before_col ! k) (away_wp_before_col ! k)
                       (elapsed_before_col ! k) (period_before_col ! k) (clock_before_col ! k)))
             [0 ..< length df])"

definition build_wp_df_from_summary :: "int \<Rightarrow> game_summary \<Rightarrow> error + timeline_row list" where
  "build_wp_df_from_summary event_id data =
     (case winprobability data of
        None \<Rightarrow> Inl (NoData event_id)
      | Some wp \<Rightarrow>
          if wp = [] then Inl (NoData event_id)
          else
            let plays_by_id = index_plays (plays data) Map.empty;
                rows = map (row_of plays_by_id) wp
            in case astype_int64 (map play_id rows) of
                 Inl e \<Rightarrow> Inl e
               | Inr ids \<Rightarrow>
                   let df = sort_key fst (zip ids rows)
                   in case apply_elapsed (elapsed_inputs df) of
                        Inl e \<Rightarrow> Inl e
                      | Inr results \<Rightarrow> Inr (timeline_of df (map as_cell results)))"

section \<open>Officials and athletes\<close>

definition or_default :: "string option \<Rightarrow> string \<Rightarrow> string" where
  \<comment> \<open>\<open>a or "literal"\<close>\<close>
  "or_default a d = (case a of None \<Rightarrow> d | Some s \<Rightarrow> if s \<noteq> [] then s else d)"

definition label_truthy :: "label option \<Rightarrow> bool" where
  "label_truthy l = (case l of None \<Rightarrow> False | Some (LStr s) \<Rightarrow> s \<noteq> [] | Some (LObj d n) \<Rightarrow> True)"

definition official_entry :: "official_json \<Rightarrow> string \<times> string" where
  "official_entry off =
     (let name = or_default (py_or (py_or (oj_displayName off) (oj_fullName off)) (oj_name off))
                   ''Unknown'';
          pos = (if label_truthy (oj_position off) then oj_position off
                 else if label_truthy (oj_role off) then oj_role off
                 else None)
      in (name,
          case pos of
            Some (LStr s) \<Rightarrow> s
          | Some (LObj d n) \<Rightarrow> or_empty (py_or d n)
          | None \<Rightarrow> []))"

definition no_box :: boxscore_json where
  "no_box = \<lparr>players = [], box_officials = []\<rparr>"

definition box_of :: "game_summary \<Rightarrow> boxscore_json" where
  \<comment> \<open>\<open>data.get("boxscore") or data.get("boxScore") or {}\<close>\<close>
  "box_of data =
     (case boxscore data of
        Some b \<Rightarrow> b
      | None \<Rightarrow> (case boxScore data of Some b \<Rightarrow> b | None \<Rightarrow> no_box))"

definition get_game_officials_from_summary :: "game_summary \<Rightarrow> (string \<times> string) list" where
  "get_game_officials_from_summary data =
     (let officials =
            (case header_competitions data of
               [] \<Rightarrow> []
             | competition # _ \<Rightarrow>
                 map official_entry
                   (if comp_officials competition \<noteq> [] then comp_officials competition
                    else comp_details_officials competition));
          officials = (if officials = [] then map official_entry (gameInfo_officials data)
                       else officials);
          officials = (if officials = [] then map official_entry (box_officials (box_of data))
                       else officials)
      in officials)"

record athlete_info =
  ai_name :: string
  ai_team_id :: idval
  ai_team_abbr :: "string option"

fun add_athletes ::
  "idval \<Rightarrow> string option \<Rightarrow> athlete_json option list \<Rightarrow> (string \<rightharpoonup> athlete_info)
   \<Rightarrow> (string \<rightharpoonup> athlete_info)"
where
  "add_athletes tid tabbr [] lookup = lookup"
| "add_athletes tid tabbr (e # es) lookup =
     (let athlete = or_no_athlete e; aid = aj_id athlete
      in if aid = IdNone then add_athletes tid tabbr es lookup
         else add_athletes tid tabbr es
                (lookup(str_id aid \<mapsto>
                   \<lparr>ai_name = or_default (py_or (py_or (aj_displayName athlete) (aj_shortName athlete))
                                           (aj_fullName athlete)) ''Unknown'',
                    ai_team_id = tid,
                    ai_team_abbr = tabbr\<rparr>)))"

fun add_statistics ::
  "idval \<Rightarrow> string option \<Rightarrow> athlete_json option list list \<Rightarrow> (string \<rightharpoonup> athlete_info)
   \<Rightarrow> (string \<rightharpoonup> athlete_info)"
where
  "add_statistics tid tabbr [] lookup = lookup"
| "add_statistics tid tabbr (stat # stats) lookup =
     add_statistics tid tabbr stats (add_athletes tid tabbr stat lookup)"

fun add_team_blocks ::
  "team_block_json list \<Rightarrow> (string \<rightharpoonup> athlete_info) \<Rightarrow> (string \<rightharpoonup> athlete_info)"
where
  "add_team_blocks [] lookup = lookup"
| "add_team_blocks (team_block # bs) lookup =
     (let team = or_no_team (tb_team team_block);
          tid = tj_id team;
          tabbr = py_or (tj_abbreviation team) (tj_shortDisplayName team)
      in add_team_blocks bs (add_statistics tid tabbr (tb_statistics team_block) lookup))"

definition build_athlete_lookup_from_summary :: "game_summary \<Rightarrow> (string \<rightharpoonup> athlete_info)" where
  "build_athlete_lookup_from_summary data = add_team_blocks (players (box_of data)) Map.empty"

section \<open>The foul attribution resolver\<close>

definition search_strings :: "team_meta option \<Rightarrow> string list" where
  \<comment> \<open>the lower-cased abbreviation, short name and name of a side, all empty without metadata\<close>
  "search_strings meta =
     (case meta of
        Some m \<Rightarrow> [lower (or_empty (tm_abbr m)), lower (or_empty (tm_short m)),
                   lower (or_empty (tm_name m))]
      | None \<Rightarrow> [[], [], []])"

definition any_in :: "string list \<Rightarrow> string \<Rightarrow> bool" where
  \<comment> \<open>\<open>any(s and s in desc for s in ...)\<close>\<close>
  "any_in ss desc = list_ex (\<lambda>s. s \<noteq> [] \<and> py_in s desc) ss"

text \<open>
  A statement that may return: \<open>Some r\<close> when it returns \<open>r\<close>, \<open>None\<close> when control
  goes on to the next statement.
\<close>

definition first_return :: "'a option \<Rightarrow> 'a option \<Rightarrow> 'a option" where
  "first_return s1 s2 = (case s1 of Some r \<Rightarrow> Some r | None \<Rightarrow> s2)"

definition match_abbr :: "'a wp_row_scheme \<Rightarrow> team_meta option \<Rightarrow> string option option" where
  \<comment> \<open>\<open>if meta and row.team_abbr == meta["abbr"]: return meta["abbr"]\<close>\<close>
  "match_abbr row meta =
     (case meta of
        Some m \<Rightarrow> if team_abbr row = tm_abbr m then Some (tm_abbr m) else None
      | None \<Rightarrow> None)"

definition match_id :: "string \<Rightarrow> team_meta option \<Rightarrow> string option option" where
  \<comment> \<open>\<open>if meta and team_id == str(meta.get("id")): return meta["abbr"]\<close>\<close>
  "match_id tid meta =
     (case meta of
        Some m \<Rightarrow> if tid = str_id (tm_id m) then Some (tm_abbr m) else None
      | None \<Rightarrow> None)"

definition infer_foul_team ::
  "'a wp_row_scheme \<Rightarrow> team_meta option \<Rightarrow> team_meta option \<Rightarrow> string option"
where
  "infer_foul_team row home_meta away_meta =
     (let desc = lower (or_empty (description row));
          by_abbr =
            (if truthy (team_abbr row) then
               first_return (match_abbr row home_meta) (match_abbr row away_meta)
             else None);
          by_id =
            (if team_id row \<noteq> IdNone then
               (let tid = str_id (team_id row)
                in first_return (match_id tid home_meta) (match_id tid away_meta))
             else None)
      in case first_return by_abbr by_id of
           Some r \<Rightarrow> r
         | None \<Rightarrow>
             if any_in (search_strings home_meta) desc then
               (case home_meta of Some h \<Rightarrow> tm_abbr h | None \<Rightarrow> Some ''HOME'')
             else if any_in (search_strings away_meta) desc then
               (case away_meta of Some a \<Rightarrow> tm_abbr a | None \<Rightarrow> Some ''AWAY'')
             else Some ''Unknown'')"

definition infer_foul_on ::
  "'a wp_row_scheme \<Rightarrow> team_meta option \<Rightarrow> team_meta option \<Rightarrow> (string \<rightharpoonup> athlete_info)
   \<Rightarrow> string option"
where
  "infer_foul_on row home_meta away_meta athlete_lookup =
     (let foul_team = infer_foul_team row home_meta away_meta;
          hit = (case primary_athlete_id row of
                   None \<Rightarrow> None
                 | Some aid \<Rightarrow> athlete_lookup aid)
      in case hit of
           None \<Rightarrow> foul_team
         | Some athlete \<Rightarrow>
             let a_name = ai_name athlete;
                 a_team = py_or (ai_team_abbr athlete) foul_team;
                 foul_team = (if a_name \<noteq> [] \<and> truthy a_team \<and> foul_team = Some ''Unknown''
                              then a_team else foul_team);
                 athlete_label = (if truthy a_team then or_empty a_team @ '' - '' @ a_name
                                  else a_name)
             in if athlete_label \<noteq> [] then Some athlete_label else foul_team)"

section \<open>The foul exporter\<close>

record foul_record =
  Period :: "int option"
  Clock :: string
  Team :: "string option"
  Fouler :: "string option"
  Subtype :: string
  Descriptor :: string
  Official1 :: string
  Official2 :: string
  Official3 :: string
  Home_Team :: string
  Home_Score :: pyval
  Away_Score :: pyval
  WinProb_Current :: "real option"
  WinProb_Previous :: "real option"
  Clock_Previous_WP :: "string option"

function pad_names :: "string list \<Rightarrow> string list" where
  "pad_names official_names =
     (if length official_names < 3 then pad_names (official_names @ [[]]) else official_names)"
  by pat_completeness auto
termination
  by (relation "measure (\<lambda>names. 3 - length names)") auto

declare pad_names.simps [simp del]

definition str_contains_foul :: "string option \<Rightarrow> bool" where
  \<comment> \<open>\<open>.str.contains("foul", case=False, na=False)\<close> on one cell\<close>
  "str_contains_foul d = (case d of None \<Rightarrow> False | Some s \<Rightarrow> py_in ''foul'' (lower s))"

definition score_cell :: "int option \<Rightarrow> pyval" where
  \<comment> \<open>\<open>int(x) if pd.notna(x) else ""\<close>\<close>
  "score_cell x = (case x of Some n \<Rightarrow> PInt n | None \<Rightarrow> PStr [])"

definition foul_row ::
  "team_meta option \<Rightarrow> team_meta option \<Rightarrow> string \<Rightarrow> (string \<rightharpoonup> athlete_info) \<Rightarrow> string list
   \<Rightarrow> (string \<rightharpoonup> play_json) \<Rightarrow> timeline_row \<Rightarrow> foul_record"
where
  "foul_row home_meta away_meta home_abbr athlete_lookup official_names plays_by_id r =
     (let team_abbr = infer_foul_team r home_meta away_meta;
          fouler = (case primary_athlete_id r of
                      None \<Rightarrow> None
                    | Some aid \<Rightarrow>
                        (case athlete_lookup aid of None \<Rightarrow> None | Some a \<Rightarrow> Some (ai_name a)));
          play_obj = plays_by_id (play_id r);
          (subtype, descriptor) =
            (case play_obj of
               None \<Rightarrow> ([], [])
             | Some p \<Rightarrow> (or_empty (pl_type_text p), or_empty (pl_shortDescription p)))
      in \<lparr>Period = period r,
          Clock = or_empty (clock r),
          Team = team_abbr,
          Fouler = (if truthy fouler then fouler
                    else infer_foul_on r home_meta away_meta athlete_lookup),
          Subtype = subtype,
          Descriptor = descriptor,
          Official1 = official_names ! 0,
          Official2 = official_names ! 1,
          Official3 = official_names ! 2,
          Home_Team = home_abbr,
          Home_Score = score_cell (home_score r),
          Away_Score = score_cell (away_score r),
          WinProb_Current = home_win_prob r,
          WinProb_Previous = home_wp_before r,
          Clock_Previous_WP = clock_before r\<rparr>)"

definition extract_foul_rows :: "int \<Rightarrow> game_summary \<Rightarrow> error + foul_record list" where
  "extract_foul_rows event_id data =
     (let (home_meta, away_meta) = get_home_away_meta data;
          home_abbr = (case home_meta of None \<Rightarrow> [] | Some h \<Rightarrow> or_empty (tm_abbr h));
          athlete_lookup = build_athlete_lookup_from_summary data;
          officials = get_game_officials_from_summary data;
          official_names = pad_names (take 3 (map fst officials));
          plays_by_id = index_plays (plays data) Map.empty
      in case build_wp_df_from_summary event_id data of
           Inl e \<Rightarrow> Inl e
         | Inr df \<Rightarrow>
             let fouls = filter (\<lambda>r. str_contains_foul (description r)) df
             in Inr (map (foul_row home_meta away_meta home_abbr athlete_lookup official_names
                            plays_by_id) fouls))"

section \<open>Specification-level notions\<close>

text \<open>A period that Python can compare with and subtract from an integer.\<close>

fun is_number :: "pyval \<Rightarrow> bool" where
  "is_number (PInt n) = True"
| "is_number (PBool b) = True"
| "is_number (PFloat x) = True"
| "is_number v = False"

text \<open>
  A clock of ordinary length: unparsable, or with seconds that both period lengths leave
  within the range of a float.
\<close>

definition clock_fits :: "string option \<Rightarrow> bool" where
  "clock_fits c =
     (case parse_clock (opt_str c) of
        None \<Rightarrow> True
      | Some r \<Rightarrow> fits_float (12 * 60 - r) \<and> fits_float (5 * 60 - r))"

text \<open>A play id that the 64-bit cast accepts, and the number a sample's play id denotes.\<close>

definition castable :: "string \<Rightarrow> bool" where
  "castable s = (case py_int s of Inl e \<Rightarrow> False | Inr n \<Rightarrow> - (2 ^ 63) \<le> n \<and> n < 2 ^ 63)"

definition numeric_id :: "wp_json \<Rightarrow> error + int" where
  "numeric_id w = py_int (str_id (playId w))"

text \<open>
  The resolution order as the specification words it, to be compared with
  \<open>infer_foul_team\<close>. Two abbreviations are equal when both are present, not empty and
  the same string; two ids are equal when the row has one and both print the same; a name
  is found in a text when it is present, not empty and, both in lower case, a contiguous
  part of the text.
\<close>

definition side_abbr :: "team_meta option \<Rightarrow> string option" where
  "side_abbr meta = (case meta of Some m \<Rightarrow> tm_abbr m | None \<Rightarrow> None)"

definition abbr_equal :: "'a wp_row_scheme \<Rightarrow> team_meta option \<Rightarrow> bool" where
  "abbr_equal row meta =
     (case (meta, team_abbr row) of
        (Some m, Some s) \<Rightarrow> s \<noteq> [] \<and> tm_abbr m = Some s
      | _ \<Rightarrow> False)"

definition id_equal :: "'a wp_row_scheme \<Rightarrow> team_meta option \<Rightarrow> bool" where
  "id_equal row meta =
     (case meta of
        Some m \<Rightarrow> team_id row \<noteq> IdNone \<and> str_id (team_id row) = str_id (tm_id m)
      | None \<Rightarrow> False)"

definition named_in :: "string \<Rightarrow> string option \<Rightarrow> bool" where
  "named_in txt n =
     (case n of Some s \<Rightarrow> s \<noteq> [] \<and> sublist (lower s) (lower txt) | None \<Rightarrow> False)"

definition named_in_description :: "'a wp_row_scheme \<Rightarrow> team_meta option \<Rightarrow> bool" where
  "named_in_description row meta =
     (case meta of
        Some m \<Rightarrow>
          (let txt = or_empty (description row)
           in named_in txt (tm_abbr m) \<or> named_in txt (tm_short m) \<or> named_in txt (tm_name m))
      | None \<Rightarrow> False)"

definition resolve_in_order ::
  "'a wp_row_scheme \<Rightarrow> team_meta option \<Rightarrow> team_meta option \<Rightarrow> string option"
where
  "resolve_in_order row home_meta away_meta =
     (if abbr_equal row home_meta then side_abbr home_meta
      else if abbr_equal row away_meta then side_abbr away_meta
      else if id_equal row home_meta then side_abbr home_meta
      else if id_equal row away_meta then side_abbr away_meta
      else if named_in_description row home_meta then side_abbr home_meta
      else if named_in_description row away_meta then side_abbr away_meta
      else Some ''Unknown'')"

section \<open>Example summaries\<close>

definition no_summary :: game_summary where
  "no_summary = \<lparr>header_competitions = [], plays = [], winprobability = None,
                  gameInfo_officials = [], boxscore = None, boxScore = None\<rparr>"

definition sample :: "idval \<Rightarrow> real option \<Rightarrow> real option \<Rightarrow> wp_json" where
  "sample i h t = \<lparr>playId = i, homeWinPercentage = h, tiePercentage = t\<rparr>"

text \<open>Two samples of the same play.\<close>

definition dup_summary :: game_summary where
  "dup_summary =
     no_summary\<lparr>winprobability :=
       Some [sample (IdStr ''1'') None None, sample (IdStr ''1'') None None]\<rparr>"

text \<open>A sample without a play id, after a good one.\<close>

definition bad_id_summary :: game_summary where
  "bad_id_summary =
     no_summary\<lparr>winprobability :=
       Some [sample (IdStr ''7'') None None, sample IdNone None None]\<rparr>"

text \<open>
  A game of two plays and three samples, out of order; the sample of play 9 has no play,
  so that the period column holds floats.
\<close>

definition bos :: team_json where
  "bos = \<lparr>tj_id = IdStr ''2'', tj_abbreviation = Some ''BOS'',
          tj_displayName = Some ''Boston Celtics'', tj_shortDisplayName = Some ''Celtics'',
          tj_name = Some ''Celtics''\<rparr>"

definition lal :: team_json where
  "lal = \<lparr>tj_id = IdStr ''13'', tj_abbreviation = Some ''LAL'',
          tj_displayName = Some ''Los Angeles Lakers'', tj_shortDisplayName = Some ''Lakers'',
          tj_name = Some ''Lakers''\<rparr>"

definition demo_wp :: "wp_json list" where
  "demo_wp = [sample (IdStr ''12'') (Some 0.6) (Some 0.1),
              sample (IdInt 7) (Some 0.5) None,
              sample (IdStr ''9'') None None]"

definition demo_summary :: game_summary where
  "demo_summary =
     \<lparr>header_competitions =
        [\<lparr>competitors = [\<lparr>cj_team = Some bos, cj_homeAway = Some ''home''\<rparr>,
                          \<lparr>cj_team = Some lal, cj_homeAway = Some ''away''\<rparr>],
          comp_officials = [], comp_details_officials = []\<rparr>],
      plays =
        [no_play\<lparr>pl_id := IdStr ''7'', pl_period_number := Some 1,
                 pl_clock_displayValue := Some ''11:40'', pl_homeScore := Some 2,
                 pl_awayScore := Some 0, pl_team := Some lal,
                 pl_text := Some ''Shooting foul by X''\<rparr>,
         no_play\<lparr>pl_id := IdInt 12, pl_period_number := Some 1,
                 pl_clock_displayValue := Some ''11:02'', pl_homeScore := Some 2,
                 pl_awayScore := Some 3, pl_text := Some ''No foul''\<rparr>],
      winprobability = Some demo_wp,
      gameInfo_officials = [], boxscore = None, boxScore = None\<rparr>"

definition demo_timeline :: "timeline_row list" where
  "demo_timeline =
     [\<lparr>play_id = ''7'', period = Some 1, clock = Some ''11:40'', home_score = Some 2,
       away_score = Some 0, home_win_prob = Some 0.5, away_win_prob = Some 0.5,
       description = Some ''Shooting foul by X'', team_id = IdStr ''13'',
       team_abbr = Some ''LAL'', team_name = Some ''Los Angeles Lakers'',
       primary_athlete_id = None, participants_raw = [], play_id_int = 7,
       elapsed = PFloat (Fin 20), home_wp_before = None, away_wp_before = None,
       elapsed_before = PNone, period_before = None, clock_before = None\<rparr>,
      \<lparr>play_id = ''9'', period = None, clock = None, home_score = None,
       away_score = None, home_win_prob = None, away_win_prob = None,
       description = None, team_id = IdNone, team_abbr = None, team_name = None,
       primary_athlete_id = None, participants_raw = [], play_id_int = 9,
       elapsed = PNone, home_wp_before = Some 0.5, away_wp_before = Some 0.5,
       elapsed_before = PFloat (Fin 20), period_before = Some 1, clock_before = Some ''11:40''\<rparr>,
      \<lparr>play_id = ''12'', period = Some 1, clock = Some ''11:02'', home_score = Some 2,
       away_score = Some 3, home_win_prob = Some 0.6, away_win_prob = Some 0.3,
       description = Some ''No foul'', team_id = IdNone, team_abbr = None, team_name = None,
       primary_athlete_id = None, participants_raw = [], play_id_int = 12,
       elapsed = PFloat (Fin 58), home_wp_before = None, away_wp_before = None,
       elapsed_before = PNone, period_before = None, clock_before = None\<rparr>]"

section \<open>Properties of the elapsed-time converter\<close>

lemma elapsed_int_eq:
  "elapsed_int p r =
     (if p \<le> 4 then (p - 1) * 720 + (720 - r) else 2880 + (p - 5) * 300 + (300 - r))"
  by (simp add: elapsed_int_def)

text \<open>A clock of two digits, a colon and two digits reads as minutes and seconds.\<close>

lemma of_char_digit_char: "d < 10 \<Longrightarrow> (of_char (digit_char d) :: nat) = 48 + d"
  by (simp add: digit_char_def)

lemma digit_char_props:
  assumes "d < 10"
  shows "py_isdigit (digit_char d)" "\<not> py_isspace (digit_char d)"
    "digit_char d \<noteq> CHR '':''" "digit_char d \<noteq> CHR ''-''" "digit_char d \<noteq> CHR ''+''"
    "digit_char d \<noteq> CHR ''_''" "digit_val (digit_char d) = int d"
proof -
  note oc = of_char_digit_char [OF assms]
  show "py_isdigit (digit_char d)" using assms by (simp add: py_isdigit_def oc)
  show "\<not> py_isspace (digit_char d)" using assms by (simp add: py_isspace_def oc)
  show "digit_val (digit_char d) = int d" by (simp add: digit_val_def oc)
  have ne: "digit_char d \<noteq> c" if "(of_char c :: nat) < 48 \<or> (of_char c :: nat) > 57" for c
    using that oc assms by auto
  show "digit_char d \<noteq> CHR '':''" by (rule ne) simp
  show "digit_char d \<noteq> CHR ''-''" by (rule ne) simp
  show "digit_char d \<noteq> CHR ''+''" by (rule ne) simp
  show "digit_char d \<noteq> CHR ''_''" by (rule ne) simp
qed

lemma py_int_two_digits:
  assumes "a < 10" "b < 10"
  shows "py_int [digit_char a, digit_char b] = Inr (int (10 * a + b))"
  using assms
  by (simp add: py_int_def strip_space_def py_unsigned_def max_str_digits_def digit_char_props
        Let_def)

lemma parse_clock_mmss:
  assumes "a < 10" "b < 10" "c < 10" "d < 10"
  shows "parse_clock (PStr [digit_char a, digit_char b, CHR '':'', digit_char c, digit_char d])
         = Some (int ((10 * a + b) * 60 + (10 * c + d)))"
  using assms
  by (simp add: parse_clock_def digit_char_props py_int_two_digits)

text \<open>
  Claim C4. For a period number \<open>p \<ge> 1\<close> and a clock string that parses, with \<open>r\<close> seconds
  remaining, the converter returns \<open>(p - 1) * 720 + (720 - r)\<close> when \<open>p \<le> 4\<close> and
  \<open>2880 + (p - 5) * 300 + (300 - r)\<close> when \<open>p \<ge> 5\<close>; period 1 at 12:00 gives 0, period 1
  at 00:00 gives 720, period 4 at 00:00 gives 2880, period 5 at 05:00 gives 2880 and
  period 5 at 00:00 gives 3180.
\<close>

theorem parse_game_time_elapsed:
  assumes "1 \<le> p" and "parse_clock (PStr c) = Some r"
  shows "parse_game_time (PInt p) (PStr c) =
           Inr (PInt (if p \<le> 4 then (p - 1) * 720 + (720 - r)
                      else 2880 + (p - 5) * 300 + (300 - r)))
         \<and> parse_game_time (PInt 1) (PStr ''12:00'') = Inr (PInt 0)
         \<and> parse_game_time (PInt 1) (PStr ''00:00'') = Inr (PInt 720)
         \<and> parse_game_time (PInt 4) (PStr ''00:00'') = Inr (PInt 2880)
         \<and> parse_game_time (PInt 5) (PStr ''05:00'') = Inr (PInt 2880)
         \<and> parse_game_time (PInt 5) (PStr ''00:00'') = Inr (PInt 3180)"
proof -
  have general: "parse_game_time (PInt p) (PStr c) =
           Inr (PInt (if p \<le> 4 then (p - 1) * 720 + (720 - r)
                      else 2880 + (p - 5) * 300 + (300 - r)))"
    using assms(2) by (simp add: parse_game_time_def elapsed_int_eq)
  have e1: "parse_game_time (PInt 1) (PStr ''12:00'') = Inr (PInt 0)" by code_simp
  have e2: "parse_game_time (PInt 1) (PStr ''00:00'') = Inr (PInt 720)" by code_simp
  have e3: "parse_game_time (PInt 4) (PStr ''00:00'') = Inr (PInt 2880)" by code_simp
  have e4: "parse_game_time (PInt 5) (PStr ''05:00'') = Inr (PInt 2880)" by code_simp
  have e5: "parse_game_time (PInt 5) (PStr ''00:00'') = Inr (PInt 3180)" by code_simp
  from general e1 e2 e3 e4 e5 show ?thesis by blast
qed

text \<open>In the second period with 07:30 on the clock, 990 seconds have been played.\<close>

theorem parse_game_time_elapsed_witness:
  "(1::int) \<le> 2 \<and> parse_clock (PStr ''07:30'') = Some 450
   \<and> parse_game_time (PInt 2) (PStr ''07:30'') = Inr (PInt 990)"
proof -
  have h1: "(1::int) \<le> 2" by simp
  have h2: "parse_clock (PStr ''07:30'') = Some 450" by code_simp
  from parse_game_time_elapsed [OF h1 h2] h1 h2 show ?thesis by simp
qed

text \<open>
  Claim C5 says that the converter never raises, whatever the period and the clock. A
  period that is a string, with a clock that parses, raises at the comparison with 4.
\<close>

theorem parse_game_time_string_period_raises:
  "parse_game_time (PStr ''1'') (PStr ''12:00'') = Inl TypeError"
  by code_simp

text \<open>
  Claim C5, amended. When the period is missing, or the clock is missing, not a string or
  unparsable, the converter returns the unknown value. When the period is an integer or a
  boolean it never raises, whatever the clock. It raises in two cases only, both with a
  clock that parses: a type error when the period is present and not a number, and an
  overflow error when the period is a float and the seconds played in the period, an
  integer, are too large to convert to a float.
\<close>

theorem parse_game_time_raises_iff:
  "(per = PNone \<or> parse_clock clk = None \<longrightarrow> parse_game_time per clk = Inr PNone)
   \<and> ((\<forall>s. clk \<noteq> PStr s) \<longrightarrow> parse_clock clk = None)
   \<and> ((\<exists>n. per = PInt n) \<or> (\<exists>b. per = PBool b) \<longrightarrow> (\<exists>v. parse_game_time per clk = Inr v))
   \<and> ((parse_game_time per clk = Inl TypeError) =
        (per \<noteq> PNone \<and> \<not> is_number per \<and> parse_clock clk \<noteq> None))
   \<and> ((parse_game_time per clk = Inl OverflowError) =
        (\<exists>x r. per = PFloat x \<and> parse_clock clk = Some r
               \<and> \<not> fits_float ((if float_le x 4 then 12 * 60 else 5 * 60) - r)))
   \<and> (\<forall>e. parse_game_time per clk = Inl e \<longrightarrow> e = TypeError \<or> e = OverflowError)"
proof -
  have a: "per = PNone \<or> parse_clock clk = None \<longrightarrow> parse_game_time per clk = Inr PNone"
    by (auto simp: parse_game_time_def)
  have b: "(\<forall>s. clk \<noteq> PStr s) \<longrightarrow> parse_clock clk = None"
    by (cases clk) (auto simp: parse_clock_def)
  have c: "(\<exists>n. per = PInt n) \<or> (\<exists>b. per = PBool b) \<longrightarrow> (\<exists>v. parse_game_time per clk = Inr v)"
    by (auto simp: parse_game_time_def split: option.splits)
  have d: "(parse_game_time per clk = Inl TypeError) =
        (per \<noteq> PNone \<and> \<not> is_number per \<and> parse_clock clk \<noteq> None)"
    by (cases per)
       (auto simp: parse_game_time_def parse_clock_def elapsed_float_def Let_def
             split: option.splits sum.splits if_splits)
  have e: "(parse_game_time per clk = Inl OverflowError) =
        (\<exists>x r. per = PFloat x \<and> parse_clock clk = Some r
               \<and> \<not> fits_float ((if float_le x 4 then 12 * 60 else 5 * 60) - r))"
    by (cases per)
       (auto simp: parse_game_time_def parse_clock_def elapsed_float_def Let_def
             split: option.splits sum.splits if_splits)
  have f: "\<forall>e. parse_game_time per clk = Inl e \<longrightarrow> e = TypeError \<or> e = OverflowError"
    by (cases per)
       (auto simp: parse_game_time_def elapsed_float_def Let_def
             split: option.splits sum.splits if_splits)
  from a b c d e f show ?thesis by blast
qed

text \<open>
  A missing period, a list for a clock and a malformed clock give the unknown value; a
  dictionary for a period raises a type error; the float period 1.0 with a clock of 320
  nines for the minutes raises an overflow error.
\<close>

theorem parse_game_time_raises_iff_witness:
  "parse_game_time PNone (PStr ''12:00'') = Inr PNone
   \<and> parse_game_time (PInt 3) (PList []) = Inr PNone
   \<and> parse_game_time (PStr ''x'') (PStr ''12-00'') = Inr PNone
   \<and> (\<exists>v. parse_game_time (PBool True) (PStr ''11:40'') = Inr v)
   \<and> parse_game_time (PDict []) (PStr ''01:00'') = Inl TypeError
   \<and> parse_game_time (PFloat (Fin 1)) (PStr (replicate 320 CHR ''9'' @ '':00''))
       = Inl OverflowError"
proof -
  have c: "parse_clock (PStr ''12-00'') = None" by code_simp
  have d: "parse_clock (PStr ''01:00'') \<noteq> None" by code_simp
  have l: "parse_clock (PStr (replicate 320 CHR ''9'' @ '':00'')) = Some (60 * (10 ^ 320 - 1))"
    by code_simp
  have nf: "\<not> fits_float ((if float_le (Fin 1) 4 then 12 * 60 else 5 * 60)
              - 60 * (10 ^ 320 - 1))"
    by code_simp
  note t = parse_game_time_raises_iff
  from t [of PNone "PStr ''12:00''"]
  have 1: "parse_game_time PNone (PStr ''12:00'') = Inr PNone" by simp
  from t [of "PInt 3" "PList []"]
  have 2: "parse_game_time (PInt 3) (PList []) = Inr PNone" by simp
  from t [of "PStr ''x''" "PStr ''12-00''"] c
  have 3: "parse_game_time (PStr ''x'') (PStr ''12-00'') = Inr PNone" by simp
  from t [of "PBool True" "PStr ''11:40''"]
  have 4: "\<exists>v. parse_game_time (PBool True) (PStr ''11:40'') = Inr v" by blast
  from t [of "PDict []" "PStr ''01:00''"] d
  have 5: "parse_game_time (PDict []) (PStr ''01:00'') = Inl TypeError" by simp
  from t [of "PFloat (Fin 1)" "PStr (replicate 320 CHR ''9'' @ '':00'')"] l nf
  have 6: "parse_game_time (PFloat (Fin 1)) (PStr (replicate 320 CHR ''9'' @ '':00''))
       = Inl OverflowError" by blast
  from 1 2 3 4 5 6 show ?thesis by blast
qed

section \<open>Properties of the timeline builder\<close>

subsection \<open>The stages of the builder\<close>



lemma parse_game_time_cell_ok:
  assumes "p = PNone \<or> is_number p" and "clock_fits c"
  shows "\<exists>v. parse_game_time p (opt_str c) = Inr v"
  using assms
  by (cases p)
     (auto simp: parse_game_time_def clock_fits_def elapsed_float_def Let_def
           split: option.splits sum.splits if_splits)

lemma period_cells_length: "length (period_cells col) = length col"
  by (simp add: period_cells_def)

lemma period_cells_kind: "p \<in> set (period_cells col) \<Longrightarrow> p = PNone \<or> is_number p"
  by (auto simp: period_cells_def opt_int_def split: if_splits option.splits)

lemma elapsed_inputs_length: "length (elapsed_inputs df) = length df"
  by (simp add: elapsed_inputs_def period_cells_length)



lemma apply_elapsed_ok:
  assumes "\<forall>r \<in> set rs. \<exists>v. parse_game_time (fst r) (snd r) = Inr v"
  shows "\<exists>vs. apply_elapsed rs = Inr vs"
  using assms by (induction rs) auto

lemma apply_elapsed_length: "apply_elapsed rs = Inr vs \<Longrightarrow> length vs = length rs"
  by (induction rs arbitrary: vs) (auto split: sum.splits)

lemma astype_int64_Inr: "astype_int64 ss = Inr ns \<Longrightarrow> map py_int ss = map Inr ns"
  by (induction ss arbitrary: ns) (auto split: sum.splits if_splits)

lemma astype_int64_length: "astype_int64 ss = Inr ns \<Longrightarrow> length ns = length ss"
  by (induction ss arbitrary: ns) (auto split: sum.splits if_splits)

lemma astype_int64_ok_iff: "(\<exists>ns. astype_int64 ss = Inr ns) = list_all castable ss"
  by (induction ss) (auto simp: castable_def split: sum.splits if_splits)

lemma py_int_error: "py_int s = Inl e \<Longrightarrow> e = InvalidLiteral s"
  by (auto simp: py_int_def Let_def split: option.splits)

lemma astype_int64_error:
  "astype_int64 ss = Inl e \<Longrightarrow> e = OverflowError \<or> (\<exists>s \<in> set ss. e = InvalidLiteral s)"
  by (induction ss) (auto split: sum.splits if_splits dest: py_int_error)

lemma shift_nth_0: "xs \<noteq> [] \<Longrightarrow> shift fill xs ! 0 = fill"
  by (cases xs) (simp_all add: shift_def)

lemma shift_nth_Suc: "Suc k < length xs \<Longrightarrow> shift fill xs ! Suc k = xs ! k"
  by (simp add: shift_def)

lemma timeline_of_length: "length (timeline_of df el) = length df"
  by (simp add: timeline_of_def)

lemma timeline_of_nth:
  assumes "k < length df"
  shows "wp_row.truncate (timeline_of df el ! k) = snd (df ! k)"
    and "play_id_int (timeline_of df el ! k) = fst (df ! k)"
    and "elapsed (timeline_of df el ! k) = el ! k"
    and "home_wp_before (timeline_of df el ! k)
           = shift None (map (\<lambda>r. home_win_prob (snd r)) df) ! k"
    and "away_wp_before (timeline_of df el ! k)
           = shift None (map (\<lambda>r. away_win_prob (snd r)) df) ! k"
    and "elapsed_before (timeline_of df el ! k) = shift PNone el ! k"
    and "period_before (timeline_of df el ! k) = shift None (map (\<lambda>r. period (snd r)) df) ! k"
    and "clock_before (timeline_of df el ! k) = shift None (map (\<lambda>r. clock (snd r)) df) ! k"
  using assms by (simp_all add: timeline_of_def wp_row.defs timeline_row.defs)

lemma timeline_of_fields:
  assumes "k < length df"
  shows "home_win_prob (timeline_of df el ! k) = home_win_prob (snd (df ! k))"
    and "away_win_prob (timeline_of df el ! k) = away_win_prob (snd (df ! k))"
    and "period (timeline_of df el ! k) = period (snd (df ! k))"
    and "clock (timeline_of df el ! k) = clock (snd (df ! k))"
  using assms by (simp_all add: timeline_of_def wp_row.defs timeline_row.defs)

lemma timeline_of_ids: "map play_id_int (timeline_of df el) = map fst df"
  by (rule nth_equalityI) (simp_all add: timeline_of_length timeline_of_nth)

lemma timeline_of_rows: "map wp_row.truncate (timeline_of df el) = map snd df"
  by (rule nth_equalityI) (simp_all add: timeline_of_length timeline_of_nth)

lemma truncate_fields:
  "play_id (wp_row.truncate r) = play_id r"
  "period (wp_row.truncate r) = period r"
  "clock (wp_row.truncate r) = clock r"
  "home_score (wp_row.truncate r) = home_score r"
  "away_score (wp_row.truncate r) = away_score r"
  "home_win_prob (wp_row.truncate r) = home_win_prob r"
  "away_win_prob (wp_row.truncate r) = away_win_prob r"
  "description (wp_row.truncate r) = description r"
  "team_id (wp_row.truncate r) = team_id r"
  "team_abbr (wp_row.truncate r) = team_abbr r"
  "team_name (wp_row.truncate r) = team_name r"
  "primary_athlete_id (wp_row.truncate r) = primary_athlete_id r"
  "participants_raw (wp_row.truncate r) = participants_raw r"
  by (simp_all add: wp_row.truncate_def)

lemma play_id_row_of: "play_id (row_of m w) = str_id (playId w)"
  by (simp add: row_of_def Let_def)

lemma play_id_comp_row_of: "play_id \<circ> row_of m = (\<lambda>w. str_id (playId w))"
  by (rule ext) (simp add: play_id_row_of)

text \<open>What a successful run of the builder computed.\<close>

lemma build_Inr:
  assumes "build_wp_df_from_summary ev data = Inr out"
  obtains wp ids el where
    "winprobability data = Some wp" "wp \<noteq> []"
    "astype_int64 (map (\<lambda>w. str_id (playId w)) wp) = Inr ids"
    "length el = length wp"
    "out = timeline_of
       (sort_key fst (zip ids (map (row_of (index_plays (plays data) Map.empty)) wp))) el"
proof -
  from assms obtain wp ids results where b:
    "winprobability data = Some wp" "wp \<noteq> []"
    "astype_int64 (map (\<lambda>w. str_id (playId w)) wp) = Inr ids"
    "apply_elapsed (elapsed_inputs
       (sort_key fst (zip ids (map (row_of (index_plays (plays data) Map.empty)) wp))))
         = Inr results"
    "out = timeline_of
       (sort_key fst (zip ids (map (row_of (index_plays (plays data) Map.empty)) wp)))
       (map as_cell results)"
    by (auto simp: build_wp_df_from_summary_def Let_def play_id_comp_row_of
             split: option.splits if_splits sum.splits)
  have "length results = length wp"
    using apply_elapsed_length [OF b(4)] astype_int64_length [OF b(3)]
    by (simp add: elapsed_inputs_length)
  then have "length (map as_cell results) = length wp" by simp
  from that [OF b(1,2,3) this b(5)] show thesis .
qed

lemma build_Inr_ids:
  assumes "build_wp_df_from_summary ev data = Inr out" and "winprobability data = Some wp"
  shows "sorted (map play_id_int out)"
    and "mset (map Inr (map play_id_int out)) = mset (map numeric_id wp)"
    and "mset (map wp_row.truncate out)
           = mset (map (row_of (index_plays (plays data) Map.empty)) wp)"
proof -
  from assms(1) obtain wp' ids el where b:
    "winprobability data = Some wp'" "wp' \<noteq> []"
    "astype_int64 (map (\<lambda>w. str_id (playId w)) wp') = Inr ids"
    "out = timeline_of
       (sort_key fst (zip ids (map (row_of (index_plays (plays data) Map.empty)) wp'))) el"
    by (rule build_Inr)
  from b(1) assms(2) have wp: "wp' = wp" by simp
  let ?rows = "map (row_of (index_plays (plays data) Map.empty)) wp"
  have len: "length ids = length ?rows"
    using astype_int64_length [OF b(3)] wp by simp
  have ids: "map play_id_int out = map fst (sort_key fst (zip ids ?rows))"
    using b(4) wp by (simp add: timeline_of_ids)
  show "sorted (map play_id_int out)"
    unfolding ids by (rule sorted_sort_key)
  have "mset (map fst (sort_key fst (zip ids ?rows))) = mset (map fst (zip ids ?rows))"
    by (metis mset_map mset_sort)
  also have "\<dots> = mset ids" using len by simp
  finally have m: "mset (map play_id_int out) = mset ids" using ids by simp
  have "map numeric_id wp = map Inr ids"
    using astype_int64_Inr [OF b(3)] wp by (simp add: numeric_id_def [abs_def] comp_def)
  with m show "mset (map Inr (map play_id_int out)) = mset (map numeric_id wp)"
    by (metis mset_map)
  have "map wp_row.truncate out = map snd (sort_key fst (zip ids ?rows))"
    using b(4) wp by (simp add: timeline_of_rows)
  moreover have "mset (map snd (sort_key fst (zip ids ?rows))) = mset (map snd (zip ids ?rows))"
    by (metis mset_map mset_sort)
  moreover have "map snd (zip ids ?rows) = ?rows" using len by simp
  ultimately show "mset (map wp_row.truncate out) = mset ?rows" by simp
qed

lemma build_Inr_rows:
  assumes "build_wp_df_from_summary ev data = Inr out" and "winprobability data = Some wp"
  shows "wp_row.truncate ` set out = row_of (index_plays (plays data) Map.empty) ` set wp"
proof -
  have "set (map wp_row.truncate out)
          = set (map (row_of (index_plays (plays data) Map.empty)) wp)"
    using build_Inr_ids(3) [OF assms] by (rule mset_eq_setD)
  then show ?thesis by simp
qed



text \<open>
  With clocks of ordinary length the converter cannot raise, and the builder returns
  exactly when the samples are not empty and their play ids are castable, whether or not
  they match a play.
\<close>

lemma index_plays_range:
  "index_plays ps m k = Some p \<Longrightarrow> p \<in> set ps \<or> m k = Some p"
proof (induction ps arbitrary: m)
  case Nil
  then show ?case by simp
next
  case (Cons a ps)
  from Cons.prems have "index_plays ps (m(str_id (pl_id a) \<mapsto> a)) k = Some p" by simp
  from Cons.IH [OF this] show ?case
    by (auto split: if_splits)
qed

lemma row_of_clock:
  "clock (row_of (index_plays ps Map.empty) w) = None
   \<or> (\<exists>p \<in> set ps. clock (row_of (index_plays ps Map.empty) w) = pl_clock_displayValue p)"
proof (cases "index_plays ps Map.empty (str_id (playId w))")
  case None
  then show ?thesis by (simp add: row_of_def Let_def no_play_def)
next
  case (Some p)
  with index_plays_range [OF Some] show ?thesis
    by (auto simp: row_of_def Let_def)
qed

lemma build_ok_iff:
  assumes "\<forall>p \<in> set (plays data). clock_fits (pl_clock_displayValue p)"
  shows "(\<exists>out. build_wp_df_from_summary ev data = Inr out) =
     (\<exists>wp. winprobability data = Some wp \<and> wp \<noteq> []
           \<and> list_all (\<lambda>w. castable (str_id (playId w))) wp)"
proof -
  have la: "list_all (\<lambda>w. castable (str_id (playId w))) wp
              = (\<exists>ns. astype_int64 (map (\<lambda>w. str_id (playId w)) wp) = Inr ns)" for wp
    by (simp add: astype_int64_ok_iff list_all_iff)
  have fits: "clock_fits (clock (row_of (index_plays (plays data) Map.empty) w))" for w
    using row_of_clock [of "plays data" w] assms
    by (auto simp: clock_fits_def opt_str_def parse_clock_def)
  have ok: "\<exists>vs. apply_elapsed (elapsed_inputs
       (sort_key fst (zip ids (map (row_of (index_plays (plays data) Map.empty)) wp)))) = Inr vs"
    for ids wp
  proof (rule apply_elapsed_ok, rule ballI)
    fix r
    let ?df = "sort_key fst (zip ids (map (row_of (index_plays (plays data) Map.empty)) wp))"
    assume r: "r \<in> set (elapsed_inputs ?df)"
    then have p: "fst r \<in> set (period_cells (map (\<lambda>r. period (snd r)) ?df))"
      unfolding elapsed_inputs_def by (metis prod.collapse set_zip_leftD)
    from r have "snd r \<in> set (map (\<lambda>r. opt_str (clock (snd r))) ?df)"
      unfolding elapsed_inputs_def by (metis prod.collapse set_zip_rightD)
    then obtain x where x: "x \<in> set ?df" "snd r = opt_str (clock (snd x))" by auto
    from x(1) have "x \<in> set (zip ids (map (row_of (index_plays (plays data) Map.empty)) wp))"
      by simp
    then have "snd x \<in> set (map (row_of (index_plays (plays data) Map.empty)) wp)"
      by (metis prod.collapse set_zip_rightD)
    then have "clock_fits (clock (snd x))" using fits by auto
    with period_cells_kind [OF p] x(2)
    show "\<exists>v. parse_game_time (fst r) (snd r) = Inr v"
      using parse_game_time_cell_ok by simp
  qed
  show ?thesis
  proof (cases "winprobability data")
    case None
    then show ?thesis by (simp add: build_wp_df_from_summary_def)
  next
    case (Some wp)
    show ?thesis
    proof (cases "wp = []")
      case True
      with Some show ?thesis by (simp add: build_wp_df_from_summary_def)
    next
      case False
      show ?thesis
      proof (cases "astype_int64 (map (\<lambda>w. str_id (playId w)) wp)")
        case (Inl e)
        with Some False show ?thesis
          by (simp add: build_wp_df_from_summary_def Let_def play_id_comp_row_of la)
      next
        case (Inr ids)
        from ok [of ids wp] obtain vs where "apply_elapsed (elapsed_inputs
            (sort_key fst (zip ids (map (row_of (index_plays (plays data) Map.empty)) wp))))
              = Inr vs"
          by blast
        with Some False Inr show ?thesis
          by (simp add: build_wp_df_from_summary_def Let_def play_id_comp_row_of la)
      qed
    qed
  qed
qed


lemma distinct_map_Inr: "distinct (map Inr xs) = distinct xs"
  by (induction xs) auto

lemma demo_build: "build_wp_df_from_summary 1 demo_summary = Inr demo_timeline"
  by code_simp

lemma demo_winprobability: "winprobability demo_summary = Some demo_wp"
  by (simp add: demo_summary_def)

subsection \<open>Order of the rows\<close>

text \<open>
  Claim C1 says that the rows of an accepted summary are strictly increasing by numeric
  play id, so that no two rows share one. Two samples of play 1 give two rows of play 1.
\<close>

theorem duplicate_play_id_rows:
  "map_sum id (map play_id_int) (build_wp_df_from_summary 0 dup_summary) = Inr [1, 1]"
  by code_simp

text \<open>
  Claim C1, amended. For every summary the builder accepts, the rows are in non-decreasing
  order of numeric play id and carry exactly the numeric play ids of the samples, one row
  per sample; the order is strictly increasing exactly when the numeric play ids of the
  samples are pairwise distinct.
\<close>

theorem timeline_sorted_by_play_id:
  assumes "build_wp_df_from_summary ev data = Inr out" and "winprobability data = Some wp"
  shows "sorted (map play_id_int out)
         \<and> mset (map Inr (map play_id_int out)) = mset (map numeric_id wp)
         \<and> (sorted_wrt (<) (map play_id_int out) = distinct (map numeric_id wp))"
proof -
  note f = build_Inr_ids(1,2) [OF assms]
  have "distinct (map numeric_id wp)
          = distinct (map Inr (map play_id_int out) :: (error + int) list)"
    using f(2) by (metis mset_eq_imp_distinct_iff)
  also have "\<dots> = distinct (map play_id_int out)"
    by (rule distinct_map_Inr)
  finally have "sorted_wrt (<) (map play_id_int out) = distinct (map numeric_id wp)"
    using f(1) by (simp add: strict_sorted_iff)
  with f show ?thesis by simp
qed

text \<open>The samples of plays 12, 7 and 9 come out as the rows of plays 7, 9 and 12.\<close>

theorem timeline_sorted_by_play_id_witness:
  "build_wp_df_from_summary 1 demo_summary = Inr demo_timeline
   \<and> winprobability demo_summary = Some demo_wp
   \<and> map play_id_int demo_timeline = [7, 9, 12]
   \<and> sorted (map play_id_int demo_timeline)
   \<and> distinct (map numeric_id demo_wp)
   \<and> sorted_wrt (<) (map play_id_int demo_timeline)"
proof -
  have ids: "map play_id_int demo_timeline = [7, 9, 12]" by (simp add: demo_timeline_def)
  have d: "distinct (map numeric_id demo_wp)" by code_simp
  from timeline_sorted_by_play_id [OF demo_build demo_winprobability] d ids
    demo_build demo_winprobability
  show ?thesis by blast
qed

subsection \<open>The fields of the previous sample\<close>

text \<open>
  Claim C2. In the output of the builder every field of the previous sample (home and away
  win probability, elapsed time, period and clock) is absent in the first row, and in each
  later row equals the current field of the row just before it in the sorted sequence.
\<close>

theorem before_fields_shifted:
  assumes "build_wp_df_from_summary ev data = Inr out"
  shows "out \<noteq> []
         \<and> home_wp_before (out ! 0) = None \<and> away_wp_before (out ! 0) = None
         \<and> elapsed_before (out ! 0) = PNone
         \<and> period_before (out ! 0) = None \<and> clock_before (out ! 0) = None
         \<and> (\<forall>k. Suc k < length out \<longrightarrow>
                home_wp_before (out ! Suc k) = home_win_prob (out ! k)
              \<and> away_wp_before (out ! Suc k) = away_win_prob (out ! k)
              \<and> elapsed_before (out ! Suc k) = elapsed (out ! k)
              \<and> period_before (out ! Suc k) = period (out ! k)
              \<and> clock_before (out ! Suc k) = clock (out ! k))"
proof -
  from assms obtain wp ids el where b:
    "wp \<noteq> []"
    "astype_int64 (map (\<lambda>w. str_id (playId w)) wp) = Inr ids"
    "length el = length wp"
    "out = timeline_of
       (sort_key fst (zip ids (map (row_of (index_plays (plays data) Map.empty)) wp))) el"
    by (rule build_Inr)
  define df where
    "df = sort_key fst (zip ids (map (row_of (index_plays (plays data) Map.empty)) wp))"
  have out: "out = timeline_of df el" using b(4) df_def by simp
  have len: "length df = length wp"
    using astype_int64_length [OF b(2)] by (simp add: df_def)
  with b(3) have el: "length el = length df" by simp
  from len b(1) have ne: "df \<noteq> []" by auto
  then have pos: "0 < length df" by simp
  with el have el_ne: "el \<noteq> []" by auto
  have ne': "out \<noteq> []" using ne timeline_of_length [of df el] out by auto
  have first: "home_wp_before (out ! 0) = None" "away_wp_before (out ! 0) = None"
    "elapsed_before (out ! 0) = PNone" "period_before (out ! 0) = None"
    "clock_before (out ! 0) = None"
    using ne el_ne pos by (simp_all add: out timeline_of_nth shift_nth_0)
  have rest: "home_wp_before (out ! Suc k) = home_win_prob (out ! k)
              \<and> away_wp_before (out ! Suc k) = away_win_prob (out ! k)
              \<and> elapsed_before (out ! Suc k) = elapsed (out ! k)
              \<and> period_before (out ! Suc k) = period (out ! k)
              \<and> clock_before (out ! Suc k) = clock (out ! k)"
    if "Suc k < length out" for k
  proof -
    from that have k: "Suc k < length df" "k < length df"
      by (simp_all add: out timeline_of_length)
    then show ?thesis
      using el by (simp add: out timeline_of_nth timeline_of_fields shift_nth_Suc)
  qed
  from ne' first rest show ?thesis by blast
qed

text \<open>The row of play 9 carries the probability, time, period and clock of play 7.\<close>

theorem before_fields_shifted_witness:
  "build_wp_df_from_summary 1 demo_summary = Inr demo_timeline
   \<and> home_wp_before (demo_timeline ! 0) = None
   \<and> clock_before (demo_timeline ! 0) = None
   \<and> home_wp_before (demo_timeline ! 1) = home_win_prob (demo_timeline ! 0)
   \<and> elapsed_before (demo_timeline ! 1) = PFloat (Fin 20)
   \<and> period_before (demo_timeline ! 1) = Some 1
   \<and> clock_before (demo_timeline ! 1) = Some ''11:40''
   \<and> clock_before (demo_timeline ! 2) = clock (demo_timeline ! 1)"
proof -
  have len: "Suc 0 < length demo_timeline" "Suc 1 < length demo_timeline"
    by (simp_all add: demo_timeline_def)
  have cur: "elapsed (demo_timeline ! 0) = PFloat (Fin 20)" "period (demo_timeline ! 0) = Some 1"
    "clock (demo_timeline ! 0) = Some ''11:40''"
    by (simp_all add: demo_timeline_def)
  note t = before_fields_shifted [OF demo_build]
  from t have first: "home_wp_before (demo_timeline ! 0) = None"
    "clock_before (demo_timeline ! 0) = None" by blast+
  from t len(1) have one: "home_wp_before (demo_timeline ! Suc 0) = home_win_prob (demo_timeline ! 0)"
    "elapsed_before (demo_timeline ! Suc 0) = elapsed (demo_timeline ! 0)"
    "period_before (demo_timeline ! Suc 0) = period (demo_timeline ! 0)"
    "clock_before (demo_timeline ! Suc 0) = clock (demo_timeline ! 0)" by blast+
  from t len(2) have two: "clock_before (demo_timeline ! Suc 1) = clock (demo_timeline ! 1)"
    by blast
  have n: "Suc 1 = 2" by simp
  from first one two cur demo_build show ?thesis
    unfolding n by simp
qed

subsection \<open>Errors of the builder\<close>



text \<open>
  Claim C9. The builder needs more than a non-empty sample list: the play id of every
  sample, as a string, must read as an integer. If a sample's play id is missing (its
  string is ``None'') or otherwise not numeric, the integer cast made for the sort raises,
  and the builder with it, although the lookup of the play accepts any id.
\<close>

theorem unparsable_play_id_raises:
  assumes "winprobability data = Some wp" and "w \<in> set wp" and "\<forall>n. numeric_id w \<noteq> Inr n"
  shows "(\<exists>e. astype_int64 (map (\<lambda>w. str_id (playId w)) wp) = Inl e
              \<and> build_wp_df_from_summary ev data = Inl e \<and> e \<noteq> NoData ev)
         \<and> numeric_id (sample IdNone h t) = Inl (InvalidLiteral ''None'')"
proof -
  from assms(2) have ne: "wp \<noteq> []" by auto
  have "\<not> castable (str_id (playId w))"
    using assms(3) by (auto simp: castable_def numeric_id_def split: sum.splits)
  with assms(2) have "\<not> list_all castable (map (\<lambda>w. str_id (playId w)) wp)"
    by (auto simp: list_all_iff)
  then obtain e where e: "astype_int64 (map (\<lambda>w. str_id (playId w)) wp) = Inl e"
    using astype_int64_ok_iff by (metis sum.exhaust)
  then have "build_wp_df_from_summary ev data = Inl e"
    using assms(1) ne by (simp add: build_wp_df_from_summary_def Let_def play_id_comp_row_of)
  moreover have "e \<noteq> NoData ev"
    using astype_int64_error [OF e] by auto
  moreover have "numeric_id (sample IdNone h t) = Inl (InvalidLiteral ''None'')"
    by (simp add: numeric_id_def sample_def str_id_def py_int_def strip_space_def py_isspace_def
          py_unsigned_def py_isdigit_def)
  ultimately show ?thesis using e by blast
qed

text \<open>A sample without a play id, after a good one, makes the builder fail on ``None''.\<close>

theorem unparsable_play_id_raises_witness:
  "winprobability bad_id_summary
     = Some [sample (IdStr ''7'') None None, sample IdNone None None]
   \<and> sample IdNone None None \<in> set [sample (IdStr ''7'') None None, sample IdNone None None]
   \<and> numeric_id (sample IdNone None None) = Inl (InvalidLiteral ''None'')
   \<and> build_wp_df_from_summary 1 bad_id_summary = Inl (InvalidLiteral ''None'')"
proof -
  let ?wp = "[sample (IdStr ''7'') None None, sample IdNone None None]"
  have a: "winprobability bad_id_summary = Some ?wp"
    by (simp add: bad_id_summary_def no_summary_def)
  have b: "sample IdNone None None \<in> set ?wp" by simp
  have c: "numeric_id (sample IdNone None None) = Inl (InvalidLiteral ''None'')" by code_simp
  then have d: "\<forall>n. numeric_id (sample IdNone None None) \<noteq> Inr n" by simp
  have e: "astype_int64 (map (\<lambda>w. str_id (playId w)) ?wp) = Inl (InvalidLiteral ''None'')"
    by code_simp
  from unparsable_play_id_raises [OF a b d, of 1] e
  have "build_wp_df_from_summary 1 bad_id_summary = Inl (InvalidLiteral ''None'')" by auto
  with a b c show ?thesis by blast
qed

subsection \<open>The away win probability\<close>

text \<open>
  Claim C6. For every sample whose home win probability is present, the away win
  probability that the builder computes is 1 minus the home probability minus the tie
  percentage, the tie taken as 0 when absent; when the home probability is absent, so is
  the away probability. Every sample has such a row and every row comes from such a sample.
  The numbers are exact reals.
\<close>

theorem away_win_probability:
  assumes "build_wp_df_from_summary ev data = Inr out" and "winprobability data = Some wp"
  shows "(\<forall>w \<in> set wp. \<exists>r \<in> set out.
            play_id r = str_id (playId w) \<and> home_win_prob r = homeWinPercentage w
            \<and> away_win_prob r =
                (case homeWinPercentage w of
                   None \<Rightarrow> None
                 | Some h \<Rightarrow> Some (1 - h - (case tiePercentage w of None \<Rightarrow> 0 | Some t \<Rightarrow> t))))
       \<and> (\<forall>r \<in> set out. \<exists>w \<in> set wp.
            play_id r = str_id (playId w) \<and> home_win_prob r = homeWinPercentage w
            \<and> away_win_prob r =
                (case homeWinPercentage w of
                   None \<Rightarrow> None
                 | Some h \<Rightarrow> Some (1 - h - (case tiePercentage w of None \<Rightarrow> 0 | Some t \<Rightarrow> t))))"
proof -
  let ?m = "index_plays (plays data) Map.empty"
  have row: "play_id (row_of ?m w) = str_id (playId w)
             \<and> home_win_prob (row_of ?m w) = homeWinPercentage w
             \<and> away_win_prob (row_of ?m w) =
                (case homeWinPercentage w of
                   None \<Rightarrow> None
                 | Some h \<Rightarrow> Some (1 - h - (case tiePercentage w of None \<Rightarrow> 0 | Some t \<Rightarrow> t)))"
    for w
    by (simp add: row_of_def Let_def away_of_def split: option.splits)
  have rows: "wp_row.truncate ` set out = row_of ?m ` set wp"
    by (rule build_Inr_rows [OF assms])
  have a: "\<exists>r \<in> set out. wp_row.truncate r = row_of ?m w" if "w \<in> set wp" for w
    using rows that by (metis (no_types, lifting) image_iff)
  have b: "\<exists>w \<in> set wp. wp_row.truncate r = row_of ?m w" if "r \<in> set out" for r
    using rows that by (metis (no_types, lifting) image_iff)
  show ?thesis
  proof (intro conjI ballI)
    fix w assume "w \<in> set wp"
    from a [OF this] obtain r where r: "r \<in> set out" "wp_row.truncate r = row_of ?m w"
      by blast
    from row [of w] show "\<exists>r \<in> set out.
            play_id r = str_id (playId w) \<and> home_win_prob r = homeWinPercentage w
            \<and> away_win_prob r =
                (case homeWinPercentage w of
                   None \<Rightarrow> None
                 | Some h \<Rightarrow> Some (1 - h - (case tiePercentage w of None \<Rightarrow> 0 | Some t \<Rightarrow> t)))"
      unfolding r(2) [symmetric] truncate_fields using r(1) by blast
  next
    fix r assume "r \<in> set out"
    from b [OF this] obtain w where w: "w \<in> set wp" "wp_row.truncate r = row_of ?m w"
      by blast
    from row [of w] show "\<exists>w \<in> set wp.
            play_id r = str_id (playId w) \<and> home_win_prob r = homeWinPercentage w
            \<and> away_win_prob r =
                (case homeWinPercentage w of
                   None \<Rightarrow> None
                 | Some h \<Rightarrow> Some (1 - h - (case tiePercentage w of None \<Rightarrow> 0 | Some t \<Rightarrow> t)))"
      unfolding w(2) [symmetric] truncate_fields using w(1) by blast
  qed
qed

text \<open>
  Home 0.6 with tie 0.1 gives away 0.3, home 0.5 without a tie gives away 0.5, and no
  home probability gives no away probability.
\<close>

theorem away_win_probability_witness:
  "build_wp_df_from_summary 1 demo_summary = Inr demo_timeline
   \<and> winprobability demo_summary = Some demo_wp
   \<and> (\<exists>r \<in> set demo_timeline.
         play_id r = ''12'' \<and> home_win_prob r = Some 0.6 \<and> away_win_prob r = Some 0.3)
   \<and> (\<exists>r \<in> set demo_timeline.
         play_id r = ''7'' \<and> home_win_prob r = Some 0.5 \<and> away_win_prob r = Some 0.5)
   \<and> (\<exists>r \<in> set demo_timeline.
         play_id r = ''9'' \<and> home_win_prob r = None \<and> away_win_prob r = None)"
proof -
  note t = away_win_probability [OF demo_build demo_winprobability, THEN conjunct1, rule_format]
  have s7: "str_id (IdInt 7) = ''7''" by code_simp
  have m: "sample (IdStr ''12'') (Some 0.6) (Some 0.1) \<in> set demo_wp"
    "sample (IdInt 7) (Some 0.5) None \<in> set demo_wp"
    "sample (IdStr ''9'') None None \<in> set demo_wp"
    by (simp_all add: demo_wp_def)
  from t [OF m(1)] have a: "\<exists>r \<in> set demo_timeline.
         play_id r = ''12'' \<and> home_win_prob r = Some 0.6 \<and> away_win_prob r = Some 0.3"
    by (simp add: sample_def str_id_def)
  from t [OF m(2)] have b: "\<exists>r \<in> set demo_timeline.
         play_id r = ''7'' \<and> home_win_prob r = Some 0.5 \<and> away_win_prob r = Some 0.5"
    by (simp add: sample_def s7)
  from t [OF m(3)] have c: "\<exists>r \<in> set demo_timeline.
         play_id r = ''9'' \<and> home_win_prob r = None \<and> away_win_prob r = None"
    by (simp add: sample_def str_id_def)
  from a b c demo_build demo_winprobability show ?thesis by blast
qed

section \<open>Properties of the foul attribution resolver\<close>

lemma py_in_sublist: "py_in s t = sublist s t"
  by (induction t) (auto simp: sublist_Cons_right)

lemma lower_Nil_iff: "(lower s = []) = (s = [])"
  by (simp add: lower_def)

lemma any_in_search_strings:
  "any_in (search_strings meta) (lower (or_empty (description row)))
     = named_in_description row meta"
  by (cases meta)
     (auto simp: any_in_def search_strings_def named_in_description_def named_in_def
        py_in_sublist lower_Nil_iff or_empty_def Let_def split: option.splits)

lemma any_in_no_meta: "\<not> any_in (search_strings None) desc"
  by (simp add: any_in_def search_strings_def)

lemma demo_meta:
  "get_home_away_meta demo_summary =
     (Some \<lparr>tm_id = IdStr ''2'', tm_abbr = Some ''BOS'', tm_name = Some ''Boston Celtics'',
            tm_short = Some ''Celtics''\<rparr>,
      Some \<lparr>tm_id = IdStr ''13'', tm_abbr = Some ''LAL'', tm_name = Some ''Los Angeles Lakers'',
            tm_short = Some ''Lakers''\<rparr>)"
  by code_simp

text \<open>
  Claim C7. For every row and every home and away metadata, the resolver applies this
  order, the first match winning: the row's team abbreviation equals the home or the away
  abbreviation; the row's team id equals the home or the away id; the abbreviation, short
  name or full name of a team occurs, case-insensitively, in the row's description; and
  ``Unknown'' when nothing matches. Within each step the home team is tried first.
\<close>

theorem infer_foul_team_order:
  "infer_foul_team row home_meta away_meta = resolve_in_order row home_meta away_meta"
  unfolding infer_foul_team_def Let_def any_in_search_strings
  by (cases home_meta; cases away_meta; cases "team_abbr row")
     (auto simp: resolve_in_order_def abbr_equal_def id_equal_def side_abbr_def truthy_def
        named_in_description_def first_return_def match_abbr_def match_id_def)

text \<open>
  The row of play 7 carries the abbreviation of the away team; a row that names only the
  home team in its description resolves to the home team by the text search.
\<close>

theorem infer_foul_team_order_witness:
  "infer_foul_team (demo_timeline ! 0) (fst (get_home_away_meta demo_summary))
     (snd (get_home_away_meta demo_summary)) = Some ''LAL''
   \<and> infer_foul_team ((demo_timeline ! 2)\<lparr>description := Some ''Foul on the CELTICS bench''\<rparr>)
       (fst (get_home_away_meta demo_summary)) (snd (get_home_away_meta demo_summary))
     = Some ''BOS''"
proof -
  have a: "resolve_in_order (demo_timeline ! 0) (fst (get_home_away_meta demo_summary))
     (snd (get_home_away_meta demo_summary)) = Some ''LAL''"
    by code_simp
  have b: "resolve_in_order
       ((demo_timeline ! 2)\<lparr>description := Some ''Foul on the CELTICS bench''\<rparr>)
       (fst (get_home_away_meta demo_summary)) (snd (get_home_away_meta demo_summary))
     = Some ''BOS''"
    by code_simp
  from a b
    infer_foul_team_order [of "demo_timeline ! 0" "fst (get_home_away_meta demo_summary)"
      "snd (get_home_away_meta demo_summary)"]
    infer_foul_team_order
      [of "(demo_timeline ! 2)\<lparr>description := Some ''Foul on the CELTICS bench''\<rparr>"
        "fst (get_home_away_meta demo_summary)" "snd (get_home_away_meta demo_summary)"]
  show ?thesis by simp
qed

text \<open>
  Claim C10. For every input the resolver returns the abbreviation of the home team, the
  abbreviation of the away team or ``Unknown''. The literals ``HOME'' and ``AWAY'' of the
  text search are never returned: without metadata for a side its search strings are all
  empty, and the test for a non-empty string rejects them.
\<close>

theorem infer_foul_team_range:
  "((\<exists>h. home_meta = Some h \<and> infer_foul_team row home_meta away_meta = tm_abbr h)
    \<or> (\<exists>a. away_meta = Some a \<and> infer_foul_team row home_meta away_meta = tm_abbr a)
    \<or> infer_foul_team row home_meta away_meta = Some ''Unknown'')
   \<and> \<not> any_in (search_strings None) desc"
  unfolding infer_foul_team_def Let_def
  by (cases home_meta; cases away_meta)
     (auto simp: any_in_no_meta first_return_def match_abbr_def match_id_def
           split: if_splits option.splits)

text \<open>Without metadata for either side a row that mentions a team is still ``Unknown''.\<close>

theorem infer_foul_team_range_witness:
  "infer_foul_team (demo_timeline ! 0) None None = Some ''Unknown''
   \<and> \<not> any_in (search_strings None) ''home foul''"
  using infer_foul_team_range [of None "demo_timeline ! 0" None "''home foul''"]
  by simp

section \<open>Properties of the foul exporter\<close>

lemma str_contains_foul_iff:
  "str_contains_foul d = (\<exists>s. d = Some s \<and> sublist ''foul'' (lower s))"
  by (cases d) (simp_all add: str_contains_foul_def py_in_sublist)

lemma pad_names_length: "length (pad_names (take 3 names)) = 3"
proof -
  have "length (pad_names ns) = 3" if "length ns \<le> 3" for ns :: "string list"
    using that
  proof (induction ns rule: pad_names.induct)
    case (1 official_names)
    then show ?case
      by (cases "length official_names < 3") (simp_all add: pad_names.simps [of official_names])
  qed
  then show ?thesis by simp
qed

text \<open>
  Claim C8. The exporter fails only where the builder fails, and otherwise produces one
  record for each row of the timeline whose description contains ``foul'' as a
  case-insensitive substring, in the order of the timeline and with no other filter, each
  record carrying the period, clock and win probabilities of its row. ``Shooting foul by
  X'' is matched, ``No foul'' is matched, and a row without a description gives no record.
\<close>

theorem one_record_per_foul_row:
  "(\<forall>e. (extract_foul_rows ev data = Inl e) = (build_wp_df_from_summary ev data = Inl e))
   \<and> (\<forall>out. build_wp_df_from_summary ev data = Inr out \<longrightarrow>
        (\<exists>f. extract_foul_rows ev data =
                Inr (map f (filter (\<lambda>r. \<exists>s. description r = Some s
                                            \<and> sublist ''foul'' (lower s)) out))
             \<and> (\<forall>r. Period (f r) = period r \<and> Clock (f r) = or_empty (clock r)
                     \<and> WinProb_Current (f r) = home_win_prob r
                     \<and> WinProb_Previous (f r) = home_wp_before r
                     \<and> Clock_Previous_WP (f r) = clock_before r)))
   \<and> str_contains_foul (Some ''Shooting foul by X'')
   \<and> str_contains_foul (Some ''No foul'')
   \<and> \<not> str_contains_foul None"
proof -
  have a: "(extract_foul_rows ev data = Inl e) = (build_wp_df_from_summary ev data = Inl e)"
    for e
    by (auto simp: extract_foul_rows_def Let_def split: prod.splits sum.splits)
  have b: "\<exists>f. extract_foul_rows ev data =
                Inr (map f (filter (\<lambda>r. \<exists>s. description r = Some s
                                            \<and> sublist ''foul'' (lower s)) out))
             \<and> (\<forall>r. Period (f r) = period r \<and> Clock (f r) = or_empty (clock r)
                     \<and> WinProb_Current (f r) = home_win_prob r
                     \<and> WinProb_Previous (f r) = home_wp_before r
                     \<and> Clock_Previous_WP (f r) = clock_before r)"
    if "build_wp_df_from_summary ev data = Inr out" for out
  proof -
    obtain home_meta away_meta where m: "get_home_away_meta data = (home_meta, away_meta)"
      by (cases "get_home_away_meta data")
    define f where "f = foul_row home_meta away_meta
        (case home_meta of None \<Rightarrow> [] | Some h \<Rightarrow> or_empty (tm_abbr h))
        (build_athlete_lookup_from_summary data)
        (pad_names (take 3 (map fst (get_game_officials_from_summary data))))
        (index_plays (plays data) Map.empty)"
    have "extract_foul_rows ev data =
            Inr (map f (filter (\<lambda>r. \<exists>s. description r = Some s
                                        \<and> sublist ''foul'' (lower s)) out))"
      using that m by (simp add: extract_foul_rows_def Let_def f_def str_contains_foul_iff)
    moreover have "Period (f r) = period r \<and> Clock (f r) = or_empty (clock r)
                     \<and> WinProb_Current (f r) = home_win_prob r
                     \<and> WinProb_Previous (f r) = home_wp_before r
                     \<and> Clock_Previous_WP (f r) = clock_before r" for r
      by (simp add: f_def foul_row_def Let_def split: prod.splits)
    ultimately show ?thesis by blast
  qed
  have c: "str_contains_foul (Some ''Shooting foul by X'')" by code_simp
  have d: "str_contains_foul (Some ''No foul'')" by code_simp
  have e: "\<not> str_contains_foul None" by (simp add: str_contains_foul_def)
  from a b c d e show ?thesis by blast
qed

text \<open>
  Of the three rows of the example, the two with a description give the two records, at
  11:40 and 11:02; the row of play 9 gives none.
\<close>

theorem one_record_per_foul_row_witness:
  "build_wp_df_from_summary 1 demo_summary = Inr demo_timeline
   \<and> length demo_timeline = 3
   \<and> (\<exists>recs. extract_foul_rows 1 demo_summary = Inr recs
        \<and> map Clock recs = [''11:40'', ''11:02'']
        \<and> map WinProb_Current recs = [Some 0.5, Some 0.6])"
proof -
  from one_record_per_foul_row [of 1 demo_summary] demo_build
  obtain f where f:
    "extract_foul_rows 1 demo_summary =
       Inr (map f (filter (\<lambda>r. \<exists>s. description r = Some s
                                  \<and> sublist ''foul'' (lower s)) demo_timeline))"
    "\<And>r. Clock (f r) = or_empty (clock r)"
    "\<And>r. WinProb_Current (f r) = home_win_prob r"
    by blast
  have sel: "filter (\<lambda>r. str_contains_foul (description r)) demo_timeline
               = [demo_timeline ! 0, demo_timeline ! 2]"
    by code_simp
  have cl: "or_empty (clock (demo_timeline ! 0)) = ''11:40''"
    "or_empty (clock (demo_timeline ! 2)) = ''11:02''"
    "home_win_prob (demo_timeline ! 0) = Some 0.5"
    "home_win_prob (demo_timeline ! 2) = Some 0.6"
    by (simp_all add: demo_timeline_def or_empty_def)
  have len: "length demo_timeline = 3" by (simp add: demo_timeline_def)
  from f(1) sel have "extract_foul_rows 1 demo_summary
      = Inr [f (demo_timeline ! 0), f (demo_timeline ! 2)]"
    by (simp add: str_contains_foul_iff)
  with f(2,3) cl len demo_build show ?thesis by simp
qed

end
